theory Spec2Isabelle
  imports Complex_Main "HOL-Library.Sublist" "HOL-Library.Log_Nat"
begin

section \<open>Python values\<close>

text \<open>
  A Python \<open>float\<close> is a finite double, modelled by the real number it denotes, or one of
  the three special values. Comparisons of floats are exact on the finite values, every
  comparison with NaN is false, and \<open>a >= b\<close> is \<open>b <= a\<close>.
\<close>

datatype pyfloat = Finite real | PosInf | NegInf | NaN

text \<open>\<open>a <= b\<close>, \<open>a < b\<close> and \<open>abs(a)\<close> on floats.\<close>

fun float_le :: "pyfloat \<Rightarrow> pyfloat \<Rightarrow> bool" where
  "float_le NaN b = False"
| "float_le a NaN = False"
| "float_le NegInf b = True"
| "float_le a PosInf = True"
| "float_le (Finite x) (Finite y) = (x \<le> y)"
| "float_le a b = False"

definition float_lt :: "pyfloat \<Rightarrow> pyfloat \<Rightarrow> bool" where
  "float_lt a b = (float_le a b \<and> a \<noteq> b)"

fun float_abs :: "pyfloat \<Rightarrow> pyfloat" where
  "float_abs (Finite x) = Finite \<bar>x\<bar>"
| "float_abs PosInf = PosInf"
| "float_abs NegInf = PosInf"
| "float_abs NaN = NaN"

text \<open>
  The fields of a price record, and the arguments of the update functions, are untyped
  Python values. The checks of the source distinguish numbers
  (\<open>isinstance(v, (int, float))\<close>), integers (\<open>isinstance(v, int)\<close>), strings and
  everything else. In Python \<open>bool\<close> is a subclass of \<open>int\<close>, so both \<open>isinstance\<close> tests
  accept \<open>True\<close> and \<open>False\<close>, which then count as 1 and 0. A \<open>datetime\<close> is the integer
  number of microseconds on its time line, which is the resolution of \<open>datetime\<close> and
  \<open>timedelta\<close>.
\<close>

datatype pyval =
    PNone
  | PBool bool
  | PInt int
  | PFloat pyfloat
  | PStr string
  | PTime int

text \<open>\<open>isinstance(v, (int, float))\<close> and \<open>isinstance(v, int)\<close>.\<close>

fun isinstance_int_float :: "pyval \<Rightarrow> bool" where
  "isinstance_int_float (PBool b) = True"
| "isinstance_int_float (PInt i) = True"
| "isinstance_int_float (PFloat x) = True"
| "isinstance_int_float v = False"

fun isinstance_int :: "pyval \<Rightarrow> bool" where
  "isinstance_int (PBool b) = True"
| "isinstance_int (PInt i) = True"
| "isinstance_int v = False"

text \<open>
  The value of a number as it enters a comparison or \<open>abs\<close>: Python compares an \<open>int\<close>
  with a \<open>float\<close> by their exact values, so an \<open>int\<close> enters as the real number it is.
  Every use in the source comes after an \<open>isinstance\<close> test that has accepted the value
  (on any other value Python would raise \<open>TypeError\<close>); the last equation of each function
  is never reached from the functions below.
\<close>

fun val :: "pyval \<Rightarrow> pyfloat" where
  "val (PBool b) = Finite (if b then 1 else 0)"
| "val (PInt i) = Finite (real_of_int i)"
| "val (PFloat x) = x"
| "val v = NaN"

fun int_of :: "pyval \<Rightarrow> int" where
  "int_of (PBool b) = (if b then 1 else 0)"
| "int_of (PInt i) = i"
| "int_of v = 0"

text \<open>The exceptions that the modelled functions can meet.\<close>

datatype py_error = ValueError | TypeError | OverflowError




section \<open>security\_config.py: the validator\<close>

definition MAX_PRICE_VALUE :: real where "MAX_PRICE_VALUE = 1000000000"
definition MAX_CHANGE_PERCENT :: real where "MAX_CHANGE_PERCENT = 1000"

text \<open>\<open>SecurityConfig.validate_price\<close>\<close>

definition validate_price :: "pyval \<Rightarrow> bool" where
  "validate_price price =
     (if \<not> isinstance_int_float price then False
      else if float_le (val price) (Finite 0) \<or> float_lt (Finite MAX_PRICE_VALUE) (val price)
        then False
      else True)"

text \<open>\<open>SecurityConfig.validate_change_percent\<close>\<close>

definition validate_change_percent :: "pyval \<Rightarrow> bool" where
  "validate_change_percent change =
     (if \<not> isinstance_int_float change then False
      else if float_lt (Finite MAX_CHANGE_PERCENT) (float_abs (val change)) then False
      else True)"

text \<open>
  A price record is a Python dict from field names to values. The keys of the batch dict
  (the symbols) are modelled as strings, so the test \<open>isinstance(symbol, str)\<close> has no
  branch of its own; \<open>not symbol\<close> is the test for the empty string.
\<close>

type_synonym price_data = "string \<rightharpoonup> pyval"

text \<open>\<open>SecurityConfig.validate_price_data\<close>\<close>

definition validate_price_data :: "string \<Rightarrow> price_data \<Rightarrow> bool" where
  "validate_price_data symbol pd =
     (if symbol = [] then False
      else
        (case pd ''price'' of
           None \<Rightarrow> False
         | Some price \<Rightarrow>
        (case pd ''change_24h'' of
           None \<Rightarrow> False
         | Some change \<Rightarrow>
        (case pd ''type'' of
           None \<Rightarrow> False
         | Some ty \<Rightarrow>
             if \<not> validate_price price then False
             else if \<not> validate_change_percent change then False
             else if ty \<notin> set [PStr ''crypto'', PStr ''stock''] then False
             else True))))"

section \<open>data\_logger.py: the deduplicating ledger\<close>

text \<open>
  A row of the table \<open>price_data\<close>, which is also a line of the CSV log. The columns
  \<open>id\<close> and \<open>created_at\<close> are filled in by SQLite and read by none of the functions below.
  The \<open>timestamp\<close> column holds a \<open>datetime\<close>; SQLite stores it as ISO text, whose
  text order is the order of the instants, so the comparisons of the queries are
  comparisons of the microsecond counts.
\<close>

record row =
  r_timestamp :: int
  r_symbol :: string
  r_price :: pyval
  r_change_24h :: pyval
  r_asset_type :: pyval

text \<open>The two sinks: the SQLite table and the CSV file, each as the list of its rows.\<close>

record store =
  db :: "row list"
  csv :: "row list"

definition empty_store :: store where
  "empty_store = \<lparr>db = [], csv = []\<rparr>"

text \<open>
  Storage operations can raise; the source catches every such exception. What the
  environment does to one call of \<open>log_prices\<close> is a parameter of the model:
  \<open>dup_fail s\<close> says that the duplicate query for symbol \<open>s\<close> raises, \<open>sqlite_fail\<close> that
  the insert transaction raises before it is committed (so that no row of the batch
  reaches the table), \<open>csv_fail\<close> that the append to the CSV file raises.
\<close>

record faults =
  dup_fail :: "string \<Rightarrow> bool"
  sqlite_fail :: bool
  csv_fail :: bool

definition no_faults :: faults where
  "no_faults = \<lparr>dup_fail = (\<lambda>s. False), sqlite_fail = False, csv_fail = False\<rparr>"

text \<open>\<open>timedelta(minutes=1)\<close>, in microseconds.\<close>

definition time_window :: int where
  "time_window = 60000000"

text \<open>
  \<open>DataLogger._is_duplicate\<close>: the number of rows of the table with this symbol and asset
  type whose timestamp is \<open>BETWEEN\<close> (inclusive on both sides) one minute before and one
  minute after the given timestamp is positive; \<open>False\<close> when the query raises.
\<close>

definition is_duplicate :: "bool \<Rightarrow> row list \<Rightarrow> string \<Rightarrow> int \<Rightarrow> pyval \<Rightarrow> bool" where
  "is_duplicate query_raises table symbol timestamp asset_type =
     (if query_raises then False
      else
        (let start_time = timestamp - time_window;
             end_time = timestamp + time_window;
             count = length (filter (\<lambda>r. r_symbol r = symbol \<and> r_asset_type r = asset_type
                                      \<and> start_time \<le> r_timestamp r \<and> r_timestamp r \<le> end_time) table)
         in count > 0))"

text \<open>
  A batch is a dict from symbols to price records: an association list in iteration
  order, whose keys are distinct.
\<close>

type_synonym batch = "(string \<times> price_data) list"

definition is_dict :: "batch \<Rightarrow> bool" where
  "is_dict prices = distinct (map fst prices)"

text \<open>
  The loop of \<open>log_prices\<close> that builds \<open>data_to_log\<close>: invalid records and duplicates
  are skipped, every other record becomes a row stamped with the time of the call
  (the \<open>timestamp\<close> field of the record itself is not read). The indexing
  \<open>price_data['type']\<close> comes after the validation, which has checked that the field is there.
\<close>

fun data_to_log :: "faults \<Rightarrow> int \<Rightarrow> row list \<Rightarrow> batch \<Rightarrow> row list" where
  "data_to_log f current_time table [] = []"
| "data_to_log f current_time table ((symbol, pd) # rest) =
     (if \<not> validate_price_data symbol pd then data_to_log f current_time table rest
      else if is_duplicate (dup_fail f symbol) table symbol current_time (the (pd ''type''))
        then data_to_log f current_time table rest
      else \<lparr>r_timestamp = current_time, r_symbol = symbol, r_price = the (pd ''price''),
             r_change_24h = the (pd ''change_24h''), r_asset_type = the (pd ''type'')\<rparr>
           # data_to_log f current_time table rest)"

text \<open>
  \<open>DataLogger._log_to_sqlite\<close> and \<open>DataLogger._log_to_csv\<close>: the number of rows written
  and the new contents of the sink; 0 and the old contents when the write raises.
\<close>

definition log_to_sqlite :: "bool \<Rightarrow> row list \<Rightarrow> row list \<Rightarrow> nat \<times> row list" where
  "log_to_sqlite raises table data = (if raises then (0, table) else (length data, table @ data))"

definition log_to_csv :: "bool \<Rightarrow> row list \<Rightarrow> row list \<Rightarrow> nat \<times> row list" where
  "log_to_csv raises file data = (if raises then (0, file) else (length data, file @ data))"

text \<open>
  \<open>DataLogger.log_prices\<close>, called at time \<open>current_time\<close> (the value of
  \<open>datetime.now()\<close>): the returned count and the new store. Every exception of the body
  is caught inside the helper that raises it, so the outer \<open>except\<close> is not reached.
\<close>

definition log_prices :: "faults \<Rightarrow> int \<Rightarrow> store \<Rightarrow> batch \<Rightarrow> nat \<times> store" where
  "log_prices f current_time st prices =
     (if prices = [] then (0, st)
      else
        (let data = data_to_log f current_time (db st) prices in
         if data = [] then (0, st)
         else
           (let (n_sqlite, table') = log_to_sqlite (sqlite_fail f) (db st) data;
                (n_csv, file') = log_to_csv (csv_fail f) (csv st) data
            in (0 + n_sqlite + n_csv, \<lparr>db = table', csv = file'\<rparr>))))"

text \<open>A sequence of calls of \<open>log_prices\<close>, each with its own faults, clock value and batch.\<close>

fun log_run :: "store \<Rightarrow> (faults \<times> int \<times> batch) list \<Rightarrow> store" where
  "log_run st [] = st"
| "log_run st ((f, t, prices) # calls) = log_run (snd (log_prices f t st prices)) calls"

text \<open>
  \<open>DataLogger.cleanup_old_data\<close>, called at time \<open>now\<close>. The function has no \<open>return\<close>
  statement: its value is \<open>None\<close>, and the number of deleted rows (\<open>cursor.rowcount\<close>)
  reaches the outside only as a log message. A \<open>days\<close> argument that is not an integer,
  not positive or above \<open>MAX_CLEANUP_DAYS\<close> is replaced by \<open>DEFAULT_CLEANUP_DAYS\<close>.
  When the database raises, nothing is committed and an error is logged.
\<close>

definition DEFAULT_CLEANUP_DAYS :: int where "DEFAULT_CLEANUP_DAYS = 30"
definition MAX_CLEANUP_DAYS :: int where "MAX_CLEANUP_DAYS = 3650"

text \<open>\<open>timedelta(days=1)\<close>, in microseconds.\<close>

definition day :: int where
  "day = 86400000000"

datatype log_event = Cleaned_up nat | Error_cleaning_up

definition cleanup_old_data :: "bool \<Rightarrow> int \<Rightarrow> pyval \<Rightarrow> row list \<Rightarrow> pyval \<times> row list \<times> log_event list" where
  "cleanup_old_data raises now days table =
     (let days' = (if \<not> isinstance_int days \<or> int_of days \<le> 0 \<or> int_of days > MAX_CLEANUP_DAYS
                   then DEFAULT_CLEANUP_DAYS else int_of days)
      in if raises then (PNone, table, [Error_cleaning_up])
         else
           (let cutoff_date = now - days' * day;
                deleted_count = length (filter (\<lambda>r. r_timestamp r < cutoff_date) table)
            in (PNone, filter (\<lambda>r. \<not> r_timestamp r < cutoff_date) table, [Cleaned_up deleted_count])))"

section \<open>alert\_system.py: thresholds and cooldown\<close>

text \<open>
  The state of an \<open>AlertSystem\<close>. The threshold is a \<open>float\<close> (5.0 from the
  configuration, \<open>float(new_threshold)\<close> after an update, which can be any float, the
  special values included); the cooldown is an integer
  number of seconds (300 from the configuration; an update stores only values that pass
  \<open>isinstance(new_cooldown, int)\<close>, and a stored \<open>True\<close> compares as 1).
\<close>

record alert_system =
  threshold :: pyfloat
  cooldown :: int
  last_alerts :: "string \<rightharpoonup> int"
  email_enabled :: bool
  webhook_enabled :: bool

definition ALERT_THRESHOLD :: pyfloat where "ALERT_THRESHOLD = Finite 5"
definition ALERT_COOLDOWN :: int where "ALERT_COOLDOWN = 300"

text \<open>\<open>AlertSystem.__init__\<close>\<close>

definition init_alert_system :: alert_system where
  "init_alert_system =
     \<lparr>threshold = ALERT_THRESHOLD, cooldown = ALERT_COOLDOWN, last_alerts = Map.empty,
      email_enabled = False, webhook_enabled = False\<rparr>"

text \<open>
  The alert dict built by \<open>check_price_alerts\<close>, without its \<open>message\<close> entry, which is
  the rendered text of the other fields.
\<close>

record alert =
  a_symbol :: string
  a_price :: pyval
  a_change_24h :: pyval
  a_threshold :: pyfloat
  a_timestamp :: int
  a_type :: pyval

text \<open>\<open>timedelta.total_seconds()\<close> of a difference of two instants.\<close>

definition total_seconds :: "int \<Rightarrow> real" where
  "total_seconds delta = real_of_int delta / 1000000"

text \<open>\<open>AlertSystem._can_send_alert\<close>\<close>

definition can_send_alert :: "alert_system \<Rightarrow> string \<Rightarrow> int \<Rightarrow> bool" where
  "can_send_alert self symbol current_time =
     (case last_alerts self symbol of
        None \<Rightarrow> True
      | Some last_alert \<Rightarrow> total_seconds (current_time - last_alert) \<ge> real_of_int (cooldown self))"

text \<open>\<open>dict.get(key, default)\<close>\<close>

definition dict_get :: "price_data \<Rightarrow> string \<Rightarrow> pyval \<Rightarrow> pyval" where
  "dict_get pd k d = (case pd k of None \<Rightarrow> d | Some v \<Rightarrow> v)"

text \<open>
  The loop of \<open>check_price_alerts\<close> over the items of the batch, at the clock value
  \<open>current_time\<close> read once before the loop: the alerts in the order they are appended,
  and the state after the loop. The test \<open>abs(change_24h) >= self.threshold\<close> is
  \<open>self.threshold <= abs(change_24h)\<close>.
\<close>

fun check_loop :: "alert_system \<Rightarrow> int \<Rightarrow> batch \<Rightarrow> alert list \<times> alert_system" where
  "check_loop self current_time [] = ([], self)"
| "check_loop self current_time ((symbol, pd) # rest) =
     (if \<not> validate_price_data symbol pd then check_loop self current_time rest
      else
        (let change_24h = dict_get pd ''change_24h'' (PInt 0);
             price = dict_get pd ''price'' (PInt 0)
         in if float_le (threshold self) (float_abs (val change_24h)) then
              (if can_send_alert self symbol current_time then
                 (let alert = \<lparr>a_symbol = symbol, a_price = price, a_change_24h = change_24h,
                               a_threshold = threshold self, a_timestamp = current_time,
                               a_type = dict_get pd ''type'' (PStr ''unknown'')\<rparr>;
                      (alerts, self') =
                         check_loop (self\<lparr>last_alerts := (last_alerts self)(symbol \<mapsto> current_time)\<rparr>)
                           current_time rest
                  in (alert # alerts, self'))
               else check_loop self current_time rest)
            else check_loop self current_time rest))"

text \<open>\<open>AlertSystem.check_price_alerts\<close>\<close>

definition check_price_alerts :: "alert_system \<Rightarrow> int \<Rightarrow> batch \<Rightarrow> alert list \<times> alert_system" where
  "check_price_alerts self current_time prices =
     (if prices = [] then ([], self) else check_loop self current_time prices)"

text \<open>
  A sequence of calls of \<open>check_price_alerts\<close>, each with its clock value and batch: for
  every call, the alerts it returned and the state it left.
\<close>

fun check_run :: "alert_system \<Rightarrow> (int \<times> batch) list \<Rightarrow> (alert list \<times> alert_system) list" where
  "check_run self [] = []"
| "check_run self ((t, prices) # calls) =
     (let r = check_price_alerts self t prices in r # check_run (snd r) calls)"



section \<open>price\_scraper.py: the rate limiter\<close>

text \<open>
  The timing state of a \<open>PriceScraper\<close>. \<open>time.time()\<close> reads a clock, in seconds, which
  is threaded through the model; \<open>time.sleep(secs)\<close> raises \<open>ValueError\<close> on a negative
  argument and otherwise suspends the caller for \<open>secs\<close> seconds plus some overshoot chosen
  by the scheduler. \<open>lag\<close> is the time that passes between the end of the test (or of the
  sleep) and the final clock reading. The calls that \<open>_rate_limit\<close> makes to the outside
  are recorded in the order they are made.
\<close>

record price_scraper =
  last_request_time :: real
  rate_limit_delay :: real

datatype effect = Time_time real | Time_sleep real

definition COINGECKO_RATE_LIMIT :: real where "COINGECKO_RATE_LIMIT = 50"

text \<open>The two timing fields set by \<open>PriceScraper.__init__\<close>.\<close>

definition init_price_scraper :: price_scraper where
  "init_price_scraper = \<lparr>last_request_time = 0, rate_limit_delay = 60 / COINGECKO_RATE_LIMIT\<rparr>"

text \<open>\<open>time.sleep(secs)\<close> called at \<open>clock\<close>: an error, or the clock when the caller resumes.\<close>

definition time_sleep :: "real \<Rightarrow> real \<Rightarrow> real \<Rightarrow> py_error + real" where
  "time_sleep clock secs overshoot =
     (if secs < 0 then Inl ValueError else Inr (clock + secs + overshoot))"

text \<open>
  \<open>PriceScraper._rate_limit\<close>, entered at \<open>clock\<close>: an error, or the new state, the clock
  at the return and the calls made to the outside (\<open>Time_time c\<close> is a call of
  \<open>time.time()\<close> that returned \<open>c\<close>, \<open>Time_sleep d\<close> a call of \<open>time.sleep(d)\<close>).
\<close>

definition rate_limit ::
  "price_scraper \<Rightarrow> real \<Rightarrow> real \<Rightarrow> real \<Rightarrow> py_error + (price_scraper \<times> real \<times> effect list)" where
  "rate_limit self clock overshoot lag =
     (let current_time = clock;
          time_since_last = current_time - last_request_time self
      in if time_since_last < rate_limit_delay self then
           (let sleep_time = rate_limit_delay self - time_since_last
            in case time_sleep clock sleep_time overshoot of
                 Inl e \<Rightarrow> Inl e
               | Inr clock' \<Rightarrow>
                   Inr (self\<lparr>last_request_time := clock' + lag\<rparr>, clock' + lag,
                        [Time_time current_time, Time_sleep sleep_time, Time_time (clock' + lag)]))
         else Inr (self\<lparr>last_request_time := clock + lag\<rparr>, clock + lag,
                   [Time_time current_time, Time_time (clock + lag)]))"

section \<open>Properties of the ledger and of the alert engine\<close>

text \<open>
  Two rows are the same observation when they agree on symbol and asset type; the
  ledger invariant asks that two such rows at different positions of a sink lie more
  than the window apart.
\<close>

definition same_key :: "row \<Rightarrow> row \<Rightarrow> bool" where
  "same_key r r' = (r_symbol r = r_symbol r' \<and> r_asset_type r = r_asset_type r')"

definition far_apart :: "row \<Rightarrow> row \<Rightarrow> bool" where
  "far_apart r r' = (same_key r r' \<longrightarrow> time_window < \<bar>r_timestamp r - r_timestamp r'\<bar>)"

definition dedup_inv :: "row list \<Rightarrow> bool" where
  "dedup_inv rows =
     (\<forall>i<length rows. \<forall>j<length rows. i \<noteq> j \<longrightarrow> far_apart (rows ! i) (rows ! j))"

text \<open>The alerts of one symbol among the alerts a call returned.\<close>

definition alerts_for :: "string \<Rightarrow> alert list \<Rightarrow> alert list" where
  "alerts_for X alerts = filter (\<lambda>a. a_symbol a = X) alerts"

text \<open>The batch holds a valid record for \<open>X\<close> whose change reaches the threshold.\<close>

definition crossing :: "alert_system \<Rightarrow> string \<Rightarrow> batch \<Rightarrow> bool" where
  "crossing self X prices =
     (case map_of prices X of
        None \<Rightarrow> False
      | Some pd \<Rightarrow> validate_price_data X pd
                   \<and> float_le (threshold self) (float_abs (val (dict_get pd ''change_24h'' (PInt 0)))))"

text \<open>
  The three tests that an item of the loop of \<open>check_price_alerts\<close> passes before an
  alert is appended, and the assignment \<open>self.last_alerts[symbol] = current_time\<close>.
\<close>

definition triggers :: "alert_system \<Rightarrow> int \<Rightarrow> string \<Rightarrow> price_data \<Rightarrow> bool" where
  "triggers self t symbol pd =
     (validate_price_data symbol pd
      \<and> float_le (threshold self) (float_abs (val (dict_get pd ''change_24h'' (PInt 0))))
      \<and> can_send_alert self symbol t)"

definition mark :: "alert_system \<Rightarrow> int \<Rightarrow> string \<Rightarrow> alert_system" where
  "mark self t symbol = self\<lparr>last_alerts := (last_alerts self)(symbol \<mapsto> t)\<rparr>"

subsection \<open>Example inputs\<close>

text \<open>
  The price record of the self-test of the source (bitcoin at 45000.0), with the change
  as a parameter, and the row it becomes when logged at time \<open>t\<close>.
\<close>

definition bitcoin_data :: "real \<Rightarrow> price_data" where
  "bitcoin_data change =
     [''symbol'' \<mapsto> PStr ''bitcoin'', ''price'' \<mapsto> PFloat (Finite 45000),
      ''change_24h'' \<mapsto> PFloat (Finite change), ''timestamp'' \<mapsto> PTime 0,
      ''type'' \<mapsto> PStr ''crypto'']"

definition bitcoin_row :: "int \<Rightarrow> real \<Rightarrow> row" where
  "bitcoin_row t change =
     \<lparr>r_timestamp = t, r_symbol = ''bitcoin'', r_price = PFloat (Finite 45000),
      r_change_24h = PFloat (Finite change), r_asset_type = PStr ''crypto''\<rparr>"

text \<open>Environments in which every duplicate query raises, or the SQLite insert raises.\<close>

definition query_fails :: faults where
  "query_fails = \<lparr>dup_fail = (\<lambda>s. True), sqlite_fail = False, csv_fail = False\<rparr>"

definition sqlite_fails :: faults where
  "sqlite_fails = \<lparr>dup_fail = (\<lambda>s. False), sqlite_fail = True, csv_fail = False\<rparr>"

lemmas validator_defs = validate_price_data_def validate_price_def validate_change_percent_def
  MAX_PRICE_VALUE_def MAX_CHANGE_PERCENT_def float_lt_def

lemmas logger_defs = log_prices_def is_duplicate_def log_to_sqlite_def log_to_csv_def
  time_window_def Let_def

lemmas example_defs = bitcoin_data_def bitcoin_row_def no_faults_def query_fails_def
  sqlite_fails_def empty_store_def

section \<open>The validator\<close>

text \<open>
  C8. Admission boundaries of the validator. A price of 0 is rejected; a finite number is
  accepted as a price when it is strictly positive and at most \<open>MAX_PRICE_VALUE\<close>, so
  every positive value however small is accepted, and is rejected when it is above the
  maximum, as is an infinite price; a finite number is accepted as a change when its
  absolute value is at most \<open>MAX_CHANGE_PERCENT\<close>, so the maximum itself is accepted, and
  is rejected when its absolute value is above the maximum, as is an infinite change.
  For a record with a non-empty symbol, finite numeric price and change and a known
  asset type, \<open>validate_price_data\<close> accepts exactly when both field validators do.
\<close>

theorem validator_boundaries:
  "\<not> validate_price (PInt 0) \<and> \<not> validate_price (PFloat (Finite 0))
   \<and> (isinstance_int_float p \<and> val p = Finite x \<and> 0 < x \<and> x \<le> MAX_PRICE_VALUE
        \<longrightarrow> validate_price p)
   \<and> (isinstance_int_float p \<and> val p = Finite x \<and> MAX_PRICE_VALUE < x \<longrightarrow> \<not> validate_price p)
   \<and> \<not> validate_price (PFloat PosInf) \<and> \<not> validate_price (PFloat NegInf)
   \<and> (isinstance_int_float c \<and> val c = Finite y \<and> \<bar>y\<bar> = MAX_CHANGE_PERCENT
        \<longrightarrow> validate_change_percent c)
   \<and> (isinstance_int_float c \<and> val c = Finite y \<and> \<bar>y\<bar> \<le> MAX_CHANGE_PERCENT
        \<longrightarrow> validate_change_percent c)
   \<and> (isinstance_int_float c \<and> val c = Finite y \<and> MAX_CHANGE_PERCENT < \<bar>y\<bar>
        \<longrightarrow> \<not> validate_change_percent c)
   \<and> \<not> validate_change_percent (PFloat PosInf) \<and> \<not> validate_change_percent (PFloat NegInf)
   \<and> (symbol \<noteq> [] \<and> pd ''price'' = Some p \<and> pd ''change_24h'' = Some c
        \<and> (pd ''type'' = Some (PStr ''crypto'') \<or> pd ''type'' = Some (PStr ''stock''))
        \<and> isinstance_int_float p \<and> val p = Finite x
        \<and> isinstance_int_float c \<and> val c = Finite y \<longrightarrow>
          (validate_price_data symbol pd \<longleftrightarrow>
             0 < x \<and> x \<le> MAX_PRICE_VALUE \<and> \<bar>y\<bar> \<le> MAX_CHANGE_PERCENT))"
  by (auto simp: validate_price_data_def validate_price_def validate_change_percent_def
      float_lt_def split: if_splits)

text \<open>
  C8, at concrete values: the smallest positive double (5e-324) and the maximum itself
  are accepted as prices, one above the maximum is not; a change of exactly -1000 is
  accepted, 1001 is not; the bitcoin record with a change of exactly 1000 is accepted.
\<close>

theorem validator_boundaries_witness:
  "validate_price (PFloat (Finite (5 / 10 ^ 324))) \<and> validate_price (PInt 1000000000)
   \<and> \<not> validate_price (PInt 1000000001)
   \<and> validate_change_percent (PFloat (Finite (- 1000))) \<and> \<not> validate_change_percent (PInt 1001)
   \<and> validate_price_data ''bitcoin'' (bitcoin_data 1000)"
proof -
  have a: "isinstance_int_float (PFloat (Finite (5 / 10 ^ 324)))
           \<and> val (PFloat (Finite (5 / 10 ^ 324))) = Finite (5 / 10 ^ 324)
           \<and> (0::real) < 5 / 10 ^ 324 \<and> 5 / 10 ^ 324 \<le> MAX_PRICE_VALUE"
    by (simp add: MAX_PRICE_VALUE_def)
  have b: "isinstance_int_float (PInt 1000000000) \<and> val (PInt 1000000000) = Finite 1000000000
           \<and> (0::real) < 1000000000 \<and> 1000000000 \<le> MAX_PRICE_VALUE"
    by (simp add: MAX_PRICE_VALUE_def)
  have c: "isinstance_int_float (PInt 1000000001) \<and> val (PInt 1000000001) = Finite 1000000001
           \<and> MAX_PRICE_VALUE < 1000000001"
    by (simp add: MAX_PRICE_VALUE_def)
  have d: "isinstance_int_float (PFloat (Finite (- 1000)))
           \<and> val (PFloat (Finite (- 1000))) = Finite (- 1000)
           \<and> \<bar>- 1000 :: real\<bar> = MAX_CHANGE_PERCENT"
    by (simp add: MAX_CHANGE_PERCENT_def)
  have e: "isinstance_int_float (PInt 1001) \<and> val (PInt 1001) = Finite 1001
           \<and> MAX_CHANGE_PERCENT < \<bar>1001 :: real\<bar>"
    by (simp add: MAX_CHANGE_PERCENT_def)
  have f: "''bitcoin'' \<noteq> [] \<and> bitcoin_data 1000 ''price'' = Some (PFloat (Finite 45000))
           \<and> bitcoin_data 1000 ''change_24h'' = Some (PFloat (Finite 1000))
           \<and> (bitcoin_data 1000 ''type'' = Some (PStr ''crypto'')
               \<or> bitcoin_data 1000 ''type'' = Some (PStr ''stock''))
           \<and> isinstance_int_float (PFloat (Finite 45000))
           \<and> val (PFloat (Finite 45000)) = Finite 45000
           \<and> isinstance_int_float (PFloat (Finite 1000))
           \<and> val (PFloat (Finite 1000)) = Finite 1000"
    by (simp add: bitcoin_data_def)
  have g: "(0::real) < 45000 \<and> 45000 \<le> MAX_PRICE_VALUE \<and> \<bar>1000 :: real\<bar> \<le> MAX_CHANGE_PERCENT"
    by (simp add: MAX_PRICE_VALUE_def MAX_CHANGE_PERCENT_def)
  note v1 = validator_boundaries [where p = "PFloat (Finite (5 / 10 ^ 324))" and x = "5 / 10 ^ 324"
      and c = "PFloat (Finite (- 1000))" and y = "- 1000"]
  note v2 = validator_boundaries [where p = "PInt 1000000000" and x = 1000000000
      and c = "PInt 1001" and y = 1001]
  note v3 = validator_boundaries [where p = "PInt 1000000001" and x = 1000000001]
  note v4 = validator_boundaries [where p = "PFloat (Finite 45000)" and x = 45000
      and c = "PFloat (Finite 1000)" and y = 1000 and symbol = "''bitcoin''"
      and pd = "bitcoin_data 1000"]
  have w1: "validate_price (PFloat (Finite (5 / 10 ^ 324)))" using v1 a by blast
  have w2: "validate_price (PInt 1000000000)" using v2 b by blast
  have w3: "\<not> validate_price (PInt 1000000001)" using v3 c by blast
  have w4: "validate_change_percent (PFloat (Finite (- 1000)))" using v1 d by blast
  have w5: "\<not> validate_change_percent (PInt 1001)" using v2 e by blast
  have w6: "validate_price_data ''bitcoin'' (bitcoin_data 1000)" using v4 f g by blast
  show ?thesis
    by (rule conjI [OF w1 conjI [OF w2 conjI [OF w3 conjI [OF w4 conjI [OF w5 w6]]]]])
qed

text \<open>
  NaN is a float of which every comparison is false; it meets neither rejection test
  and passes both field validators.
\<close>

lemma nan_passes_validation:
  "validate_price (PFloat NaN) \<and> validate_change_percent (PFloat NaN)"
  by (simp add: validate_price_def validate_change_percent_def float_lt_def)

section \<open>The ledger\<close>

subsection \<open>The invariant as a property of the list of rows\<close>

lemma far_apart_sym: "far_apart r r' = far_apart r' r"
  by (auto simp: far_apart_def same_key_def)

lemma dedup_inv_sorted_wrt: "dedup_inv rows = sorted_wrt far_apart rows"
proof
  assume "dedup_inv rows"
  then show "sorted_wrt far_apart rows"
    by (simp add: dedup_inv_def sorted_wrt_iff_nth_less)
next
  assume s: "sorted_wrt far_apart rows"
  show "dedup_inv rows"
    unfolding dedup_inv_def
  proof (intro allI impI)
    fix i j assume ij: "i < length rows" "j < length rows" "i \<noteq> j"
    show "far_apart (rows ! i) (rows ! j)"
    proof (cases "i < j")
      case True
      with s ij show ?thesis by (simp add: sorted_wrt_iff_nth_less)
    next
      case False
      with ij have "j < i" by simp
      with s ij have "far_apart (rows ! j) (rows ! i)" by (simp add: sorted_wrt_iff_nth_less)
      then show ?thesis by (simp add: far_apart_sym)
    qed
  qed
qed

lemma sorted_wrt_subseq: "subseq xs ys \<Longrightarrow> sorted_wrt P ys \<Longrightarrow> sorted_wrt P xs"
proof (induction rule: list_emb.induct)
  case (list_emb_Nil ys)
  then show ?case by simp
next
  case (list_emb_Cons xs ys y)
  then show ?case by simp
next
  case (list_emb_Cons2 x y xs ys)
  then have "set xs \<subseteq> set ys" by (auto elim: list_emb_set)
  with list_emb_Cons2 show ?case by auto
qed

lemma distinct_symbols_far_apart:
  "distinct (map r_symbol rows) \<Longrightarrow> sorted_wrt far_apart rows"
  by (induction rows) (auto simp: far_apart_def same_key_def)

subsection \<open>The rows a call collects\<close>

lemma data_to_log_row:
  "r \<in> set (data_to_log f t table ps) \<Longrightarrow>
     r_timestamp r = t \<and> r_symbol r \<in> fst ` set ps \<and>
     \<not> is_duplicate (dup_fail f (r_symbol r)) table (r_symbol r) t (r_asset_type r)"
  by (induction ps) (auto split: if_splits)

lemma data_to_log_distinct:
  "distinct (map fst ps) \<Longrightarrow> distinct (map r_symbol (data_to_log f t table ps))"
proof (induction ps)
  case Nil
  then show ?case by simp
next
  case (Cons p ps)
  obtain s pd where p: "p = (s, pd)" by (cases p)
  from Cons.prems p have "s \<notin> fst ` set ps" by simp
  then have "s \<notin> r_symbol ` set (data_to_log f t table ps)"
    using data_to_log_row by blast
  with Cons p show ?case by simp
qed

lemma not_duplicate_far:
  assumes "\<not> is_duplicate False table s t a" and "r \<in> set table"
      and "r_symbol r = s" and "r_asset_type r = a"
  shows "time_window < \<bar>r_timestamp r - t\<bar>"
proof -
  from assms(1) have "filter (\<lambda>r. r_symbol r = s \<and> r_asset_type r = a
      \<and> t - time_window \<le> r_timestamp r \<and> r_timestamp r \<le> t + time_window) table = []"
    by (simp add: is_duplicate_def Let_def)
  with assms(2-4) have "\<not> (t - time_window \<le> r_timestamp r \<and> r_timestamp r \<le> t + time_window)"
    by (auto simp: filter_empty_conv)
  then show ?thesis by arith
qed

lemma new_rows_far_apart:
  assumes "\<forall>s. \<not> dup_fail f s" and "r \<in> set table" and "r' \<in> set (data_to_log f t table ps)"
  shows "far_apart r r'"
proof -
  from assms(3) have ts: "r_timestamp r' = t"
    and nd: "\<not> is_duplicate (dup_fail f (r_symbol r')) table (r_symbol r') t (r_asset_type r')"
    using data_to_log_row by blast+
  from nd assms(1) have "\<not> is_duplicate False table (r_symbol r') t (r_asset_type r')" by simp
  from not_duplicate_far [OF this assms(2)] ts show ?thesis
    by (simp add: far_apart_def same_key_def)
qed

subsection \<open>One call, then a run of calls\<close>

lemma log_prices_db:
  "db (snd (log_prices f t st ps)) = db st \<or>
   db (snd (log_prices f t st ps)) = db st @ data_to_log f t (db st) ps"
  by (simp add: log_prices_def log_to_sqlite_def log_to_csv_def Let_def)

lemma log_prices_keeps_inv:
  assumes "sorted_wrt far_apart (db st)" and "is_dict ps" and "\<forall>s. \<not> dup_fail f s"
  shows "sorted_wrt far_apart (db (snd (log_prices f t st ps)))"
proof -
  have "sorted_wrt far_apart (db st @ data_to_log f t (db st) ps)"
    using assms new_rows_far_apart [OF assms(3)]
    by (auto simp: sorted_wrt_append is_dict_def
        intro: distinct_symbols_far_apart data_to_log_distinct)
  with assms(1) log_prices_db [of f t st ps] show ?thesis by auto
qed

lemma log_run_keeps_inv:
  "sorted_wrt far_apart (db st) \<Longrightarrow>
   \<forall>(f, t, ps) \<in> set calls. is_dict ps \<and> (\<forall>s. \<not> dup_fail f s) \<Longrightarrow>
   sorted_wrt far_apart (db (log_run st calls))"
proof (induction calls arbitrary: st)
  case Nil
  then show ?case by simp
next
  case (Cons c calls)
  obtain f t ps where c: "c = (f, t, ps)" by (cases c)
  with Cons.prems have "sorted_wrt far_apart (db (snd (log_prices f t st ps)))"
    by (auto intro: log_prices_keeps_inv)
  with Cons c show ?case by simp
qed

lemma log_prices_csv_subseq:
  "\<not> sqlite_fail f \<Longrightarrow> subseq (csv st) (db st) \<Longrightarrow>
   subseq (csv (snd (log_prices f t st ps))) (db (snd (log_prices f t st ps)))"
  by (auto simp: log_prices_def log_to_sqlite_def log_to_csv_def Let_def
      intro: list_emb_append_mono list_emb_prefix)

lemma log_run_csv_subseq:
  "subseq (csv st) (db st) \<Longrightarrow> \<forall>(f, t, ps) \<in> set calls. \<not> sqlite_fail f \<Longrightarrow>
   subseq (csv (log_run st calls)) (db (log_run st calls))"
proof (induction calls arbitrary: st)
  case Nil
  then show ?case by simp
next
  case (Cons c calls)
  obtain f t ps where c: "c = (f, t, ps)" by (cases c)
  with Cons.prems have "subseq (csv (snd (log_prices f t st ps))) (db (snd (log_prices f t st ps)))"
    by (auto intro: log_prices_csv_subseq)
  with Cons c show ?case by simp
qed

text \<open>
  C1, as the code has it. Over any sequence of calls of \<open>log_prices\<close>, whatever the
  batches, their grouping and the clock values, in which no duplicate query raises, the
  SQLite table never comes to hold two rows of the same symbol and asset type within one
  minute of each other; when moreover no SQLite insert fails and the CSV log starts as
  a subsequence of the table, the same holds of the CSV log. The timestamp of a row is
  the clock value of the call that logged it.
\<close>

theorem dedup_invariant:
  assumes "dedup_inv (db st)"
      and "\<forall>(f, t, ps) \<in> set calls. is_dict ps \<and> (\<forall>s. \<not> dup_fail f s)"
  shows "dedup_inv (db (log_run st calls))
       \<and> (subseq (csv st) (db st) \<and> (\<forall>(f, t, ps) \<in> set calls. \<not> sqlite_fail f)
            \<longrightarrow> dedup_inv (csv (log_run st calls)))"
proof -
  have d: "sorted_wrt far_apart (db (log_run st calls))"
    using assms log_run_keeps_inv by (simp add: dedup_inv_sorted_wrt)
  then show ?thesis
    using log_run_csv_subseq [of st calls] sorted_wrt_subseq
    by (auto simp: dedup_inv_sorted_wrt)
qed

text \<open>
  C1, at a concrete run: the same bitcoin observation submitted twice, one second apart,
  with no fault, leaves one row in each sink.
\<close>

theorem dedup_invariant_witness:
  "dedup_inv (db empty_store)
   \<and> is_dict [(''bitcoin'', bitcoin_data 2.5)]
   \<and> (\<forall>s. \<not> dup_fail no_faults s)
   \<and> subseq (csv empty_store) (db empty_store)
   \<and> \<not> sqlite_fail no_faults
   \<and> dedup_inv (db (log_run empty_store
        [(no_faults, 0, [(''bitcoin'', bitcoin_data 2.5)]),
         (no_faults, 1000000, [(''bitcoin'', bitcoin_data 2.5)])]))
   \<and> dedup_inv (csv (log_run empty_store
        [(no_faults, 0, [(''bitcoin'', bitcoin_data 2.5)]),
         (no_faults, 1000000, [(''bitcoin'', bitcoin_data 2.5)])]))
   \<and> log_run empty_store
        [(no_faults, 0, [(''bitcoin'', bitcoin_data 2.5)]),
         (no_faults, 1000000, [(''bitcoin'', bitcoin_data 2.5)])]
       = \<lparr>db = [bitcoin_row 0 2.5], csv = [bitcoin_row 0 2.5]\<rparr>"
proof -
  have h1: "dedup_inv (db empty_store)"
    by (simp add: dedup_inv_def empty_store_def)
  have d: "is_dict [(''bitcoin'', bitcoin_data 2.5)]"
    by (simp add: is_dict_def)
  have q: "\<forall>s. \<not> dup_fail no_faults s"
    by (simp add: no_faults_def)
  have w: "\<not> sqlite_fail no_faults"
    by (simp add: no_faults_def)
  have h2: "\<forall>(f, t, ps) \<in> set [(no_faults, 0, [(''bitcoin'', bitcoin_data 2.5)]),
                          (no_faults, 1000000, [(''bitcoin'', bitcoin_data 2.5)])].
         is_dict ps \<and> (\<forall>s. \<not> dup_fail f s)"
    using d q by simp
  have h3: "subseq (csv empty_store) (db empty_store)"
    by (simp add: empty_store_def)
  have h4: "\<forall>(f, t, ps) \<in> set [(no_faults, 0, [(''bitcoin'', bitcoin_data 2.5)]),
                          (no_faults, 1000000, [(''bitcoin'', bitcoin_data 2.5)])].
         \<not> sqlite_fail f"
    using w by simp
  have e: "log_run empty_store
        [(no_faults, 0, [(''bitcoin'', bitcoin_data 2.5)]),
         (no_faults, 1000000, [(''bitcoin'', bitcoin_data 2.5)])]
       = \<lparr>db = [bitcoin_row 0 2.5], csv = [bitcoin_row 0 2.5]\<rparr>"
    by (simp add: logger_defs validator_defs example_defs)
  note r = dedup_invariant [OF h1 h2]
  note c1 = r [THEN conjunct1]
  note c2 = r [THEN conjunct2, THEN mp, OF conjI, OF h3 h4]
  show ?thesis
    by (rule conjI [OF h1 conjI [OF d conjI [OF q conjI [OF h3 conjI [OF w
        conjI [OF c1 conjI [OF c2 e]]]]]]])
qed

text \<open>
  C1 as stated fails: when the duplicate query of the second call raises, the same
  bitcoin observation submitted twice, one second apart, leaves two rows in the table.
  And with no fault at all, one and the same record (its own \<open>timestamp\<close> field is the
  same instant both times) submitted in two calls two minutes apart is logged twice:
  the time that counts is the time of the call.
\<close>

theorem dedup_counterexample:
  "db (log_run empty_store
        [(no_faults, 0, [(''bitcoin'', bitcoin_data 2.5)]),
         (query_fails, 1000000, [(''bitcoin'', bitcoin_data 2.5)])])
     = [bitcoin_row 0 2.5, bitcoin_row 1000000 2.5]
   \<and> \<not> dedup_inv [bitcoin_row 0 2.5, bitcoin_row 1000000 2.5]
   \<and> db (log_run empty_store
        [(no_faults, 0, [(''bitcoin'', bitcoin_data 2.5)]),
         (no_faults, 120000000, [(''bitcoin'', bitcoin_data 2.5)])])
     = [bitcoin_row 0 2.5, bitcoin_row 120000000 2.5]"
  by (simp add: logger_defs validator_defs example_defs dedup_inv_sorted_wrt
      far_apart_def same_key_def)

text \<open>
  C10. The duplicate check fails open: when the query raises, \<open>_is_duplicate\<close> answers
  \<open>False\<close>. A valid observation whose query raises is therefore appended to both sinks
  (when neither write fails), and if the table already holds a row of the same symbol
  and asset type within the window, the table then holds a duplicate.
\<close>

theorem duplicate_check_fails_open:
  "is_duplicate True table symbol t a = False
   \<and> (validate_price_data symbol pd \<and> dup_fail f symbol \<and> \<not> sqlite_fail f \<and> \<not> csv_fail f
        \<longrightarrow> snd (log_prices f t st [(symbol, pd)])
            = \<lparr>db = db st @ [\<lparr>r_timestamp = t, r_symbol = symbol, r_price = the (pd ''price''),
                               r_change_24h = the (pd ''change_24h''),
                               r_asset_type = the (pd ''type'')\<rparr>],
               csv = csv st @ [\<lparr>r_timestamp = t, r_symbol = symbol, r_price = the (pd ''price''),
                                r_change_24h = the (pd ''change_24h''),
                                r_asset_type = the (pd ''type'')\<rparr>]\<rparr>
          \<and> (\<forall>r \<in> set (db st). r_symbol r = symbol \<and> r_asset_type r = the (pd ''type'')
                 \<and> \<bar>t - r_timestamp r\<bar> \<le> time_window
               \<longrightarrow> \<not> dedup_inv (db (snd (log_prices f t st [(symbol, pd)])))))"
proof -
  let ?row = "\<lparr>r_timestamp = t, r_symbol = symbol, r_price = the (pd ''price''),
                r_change_24h = the (pd ''change_24h''), r_asset_type = the (pd ''type'')\<rparr>"
  have fails_open: "is_duplicate True table symbol t a = False"
    by (simp add: is_duplicate_def)
  have written: "snd (log_prices f t st [(symbol, pd)]) = \<lparr>db = db st @ [?row], csv = csv st @ [?row]\<rparr>"
    if "validate_price_data symbol pd" "dup_fail f symbol" "\<not> sqlite_fail f" "\<not> csv_fail f"
    using that by (simp add: log_prices_def is_duplicate_def log_to_sqlite_def log_to_csv_def Let_def)
  have dup: "\<not> dedup_inv (db st @ [?row])"
    if "r \<in> set (db st)" "r_symbol r = symbol" "r_asset_type r = the (pd ''type'')"
       "\<bar>t - r_timestamp r\<bar> \<le> time_window" for r
  proof
    assume "dedup_inv (db st @ [?row])"
    then have "far_apart r ?row"
      using that(1) by (simp add: dedup_inv_sorted_wrt sorted_wrt_append)
    with that(2-4) show False by (simp add: far_apart_def same_key_def)
  qed
  show ?thesis
    using fails_open written dup by auto
qed

text \<open>
  C10, at a concrete state: the table holds the bitcoin row logged at time 0; the same
  observation arrives one second later and its duplicate query raises.
\<close>

theorem duplicate_check_fails_open_witness:
  "validate_price_data ''bitcoin'' (bitcoin_data 2.5) \<and> dup_fail query_fails ''bitcoin''
   \<and> \<not> sqlite_fail query_fails \<and> \<not> csv_fail query_fails
   \<and> bitcoin_row 0 2.5 \<in> set (db \<lparr>db = [bitcoin_row 0 2.5], csv = [bitcoin_row 0 2.5]\<rparr>)
   \<and> r_symbol (bitcoin_row 0 2.5) = ''bitcoin''
   \<and> r_asset_type (bitcoin_row 0 2.5) = the (bitcoin_data 2.5 ''type'')
   \<and> \<bar>1000000 - r_timestamp (bitcoin_row 0 2.5)\<bar> \<le> time_window
   \<and> snd (log_prices query_fails 1000000 \<lparr>db = [bitcoin_row 0 2.5], csv = [bitcoin_row 0 2.5]\<rparr>
            [(''bitcoin'', bitcoin_data 2.5)])
       = \<lparr>db = [bitcoin_row 0 2.5, bitcoin_row 1000000 2.5],
          csv = [bitcoin_row 0 2.5, bitcoin_row 1000000 2.5]\<rparr>
   \<and> \<not> dedup_inv (db (snd (log_prices query_fails 1000000
            \<lparr>db = [bitcoin_row 0 2.5], csv = [bitcoin_row 0 2.5]\<rparr>
            [(''bitcoin'', bitcoin_data 2.5)])))"
proof -
  let ?st = "\<lparr>db = [bitcoin_row 0 2.5], csv = [bitcoin_row 0 2.5]\<rparr>"
  have h1: "validate_price_data ''bitcoin'' (bitcoin_data 2.5) \<and> dup_fail query_fails ''bitcoin''
            \<and> \<not> sqlite_fail query_fails \<and> \<not> csv_fail query_fails"
    by (simp add: validator_defs example_defs)
  have h2: "bitcoin_row 0 2.5 \<in> set (db ?st)" by simp
  have h3: "r_symbol (bitcoin_row 0 2.5) = ''bitcoin''
            \<and> r_asset_type (bitcoin_row 0 2.5) = the (bitcoin_data 2.5 ''type'')
            \<and> \<bar>1000000 - r_timestamp (bitcoin_row 0 2.5)\<bar> \<le> time_window"
    by (simp add: example_defs time_window_def)
  note r = duplicate_check_fails_open [of _ "''bitcoin''" 1000000 _ "bitcoin_data 2.5" query_fails ?st,
      THEN conjunct2, THEN mp, OF h1]
  have c1: "snd (log_prices query_fails 1000000 ?st [(''bitcoin'', bitcoin_data 2.5)])
       = \<lparr>db = [bitcoin_row 0 2.5, bitcoin_row 1000000 2.5],
          csv = [bitcoin_row 0 2.5, bitcoin_row 1000000 2.5]\<rparr>"
    using r [THEN conjunct1] by (simp add: example_defs)
  have c2: "\<not> dedup_inv (db (snd (log_prices query_fails 1000000 ?st [(''bitcoin'', bitcoin_data 2.5)])))"
    using r [THEN conjunct2, THEN bspec, OF h2, THEN mp, OF h3] .
  show ?thesis
    using h1 h2 h3 c1 c2 by simp
qed

text \<open>
  C2, as the code has it. When the SQLite insert raises and the CSV append succeeds,
  \<open>log_prices\<close> returns the number of collected rows (one per row), the rows are
  appended to the CSV log, and the table is left as it was. The duplicate check reads
  nothing but the table, so it answers as before the call: the rows just counted are
  not known to it.
\<close>

theorem sink_independence:
  assumes "sqlite_fail f" and "\<not> csv_fail f"
  shows "fst (log_prices f t st ps) = length (data_to_log f t (db st) ps)
       \<and> csv (snd (log_prices f t st ps)) = csv st @ data_to_log f t (db st) ps
       \<and> db (snd (log_prices f t st ps)) = db st
       \<and> is_duplicate q (db (snd (log_prices f t st ps))) symbol t' a
           = is_duplicate q (db st) symbol t' a"
proof -
  have "db (snd (log_prices f t st ps)) = db st"
    using assms by (simp add: log_prices_def log_to_sqlite_def log_to_csv_def Let_def)
  moreover have "fst (log_prices f t st ps) = length (data_to_log f t (db st) ps)"
    using assms by (cases ps) (simp_all add: log_prices_def log_to_sqlite_def log_to_csv_def Let_def)
  moreover have "csv (snd (log_prices f t st ps)) = csv st @ data_to_log f t (db st) ps"
    using assms by (cases ps) (simp_all add: log_prices_def log_to_sqlite_def log_to_csv_def Let_def)
  ultimately show ?thesis by simp
qed

text \<open>C2, at a concrete call: the bitcoin observation logged while SQLite is failing.\<close>

theorem sink_independence_witness:
  "sqlite_fail sqlite_fails \<and> \<not> csv_fail sqlite_fails
   \<and> fst (log_prices sqlite_fails 0 empty_store [(''bitcoin'', bitcoin_data 2.5)]) = 1
   \<and> csv (snd (log_prices sqlite_fails 0 empty_store [(''bitcoin'', bitcoin_data 2.5)]))
       = [bitcoin_row 0 2.5]
   \<and> db (snd (log_prices sqlite_fails 0 empty_store [(''bitcoin'', bitcoin_data 2.5)])) = []"
proof -
  have h1: "sqlite_fail sqlite_fails" and h2: "\<not> csv_fail sqlite_fails"
    by (simp_all add: sqlite_fails_def)
  have d: "data_to_log sqlite_fails 0 (db empty_store) [(''bitcoin'', bitcoin_data 2.5)]
             = [bitcoin_row 0 2.5]"
    by (simp add: logger_defs validator_defs example_defs)
  have e: "db empty_store = []" "csv empty_store = []" by (simp_all add: empty_store_def)
  show ?thesis
    using sink_independence [OF h1 h2, of 0 empty_store "[(''bitcoin'', bitcoin_data 2.5)]"] h1 h2 d e
    by simp
qed

text \<open>
  C2 as stated fails in its second half: after the bitcoin observation was logged to
  the CSV log only (count 1), the table is empty, the duplicate check one second later
  answers \<open>False\<close>, and the re-submitted observation is written again.
\<close>

theorem sink_independence_counterexample:
  "log_prices sqlite_fails 0 empty_store [(''bitcoin'', bitcoin_data 2.5)]
     = (1, \<lparr>db = [], csv = [bitcoin_row 0 2.5]\<rparr>)
   \<and> \<not> is_duplicate False [] ''bitcoin'' 1000000 (PStr ''crypto'')
   \<and> log_prices no_faults 1000000 \<lparr>db = [], csv = [bitcoin_row 0 2.5]\<rparr>
        [(''bitcoin'', bitcoin_data 2.5)]
     = (2, \<lparr>db = [bitcoin_row 1000000 2.5],
            csv = [bitcoin_row 0 2.5, bitcoin_row 1000000 2.5]\<rparr>)"
  by (simp add: logger_defs validator_defs example_defs)

text \<open>
  The count that \<open>log_prices\<close> returns, in general: every collected row counts once for
  each sink whose write succeeds.
\<close>

lemma log_prices_count:
  "fst (log_prices f t st ps)
     = (if sqlite_fail f then 0 else length (data_to_log f t (db st) ps))
       + (if csv_fail f then 0 else length (data_to_log f t (db st) ps))"
  by (cases ps) (simp_all add: log_prices_def log_to_sqlite_def log_to_csv_def Let_def)

text \<open>
  C3. The returned count is the sum of the counts of the two sinks: one valid, new
  observation logged with no fault makes one row in each sink and the return value 2,
  where the docstring of \<open>log_prices\<close> promises the number of entries logged.
\<close>

theorem log_prices_counts_each_sink:
  "log_prices no_faults 0 empty_store [(''bitcoin'', bitcoin_data 2.5)]
     = (2, \<lparr>db = [bitcoin_row 0 2.5], csv = [bitcoin_row 0 2.5]\<rparr>)"
  by (simp add: logger_defs validator_defs example_defs)

text \<open>
  C6, as the code has it. When the database does not raise and \<open>days\<close> is an integer
  from 1 to \<open>MAX_CLEANUP_DAYS\<close>, \<open>cleanup_old_data\<close> deletes exactly the rows whose
  timestamp is before the cutoff \<open>now - days\<close> and keeps every other row in place; it
  returns \<open>None\<close>, and the number of deleted rows is logged. Any other \<open>days\<close> is
  replaced by \<open>DEFAULT_CLEANUP_DAYS\<close>. When the database raises, the table is unchanged.
\<close>

theorem purge_deletes_old:
  "(isinstance_int days \<and> 0 < int_of days \<and> int_of days \<le> MAX_CLEANUP_DAYS \<longrightarrow>
      cleanup_old_data False now days table
        = (PNone,
           filter (\<lambda>r. now - int_of days * day \<le> r_timestamp r) table,
           [Cleaned_up (length (filter (\<lambda>r. r_timestamp r < now - int_of days * day) table))]))
   \<and> (\<not> isinstance_int days \<or> int_of days \<le> 0 \<or> MAX_CLEANUP_DAYS < int_of days \<longrightarrow>
      cleanup_old_data False now days table
        = cleanup_old_data False now (PInt DEFAULT_CLEANUP_DAYS) table)
   \<and> cleanup_old_data True now days table = (PNone, table, [Error_cleaning_up])"
  by (auto simp: cleanup_old_data_def Let_def not_less DEFAULT_CLEANUP_DAYS_def
      MAX_CLEANUP_DAYS_def)

text \<open>
  C6, at the scenario of the specification: rows 40 and 5 days old, a purge of 30 days;
  and a purge of 4000 days, which is carried out as a purge of 30 days.
\<close>

theorem purge_deletes_old_witness:
  "isinstance_int (PInt 30) \<and> 0 < int_of (PInt 30) \<and> int_of (PInt 30) \<le> MAX_CLEANUP_DAYS
   \<and> cleanup_old_data False 0 (PInt 30) [bitcoin_row (- 40 * day) 2.5, bitcoin_row (- 5 * day) 2.5]
       = (PNone, [bitcoin_row (- 5 * day) 2.5], [Cleaned_up 1])
   \<and> MAX_CLEANUP_DAYS < int_of (PInt 4000)
   \<and> cleanup_old_data False 0 (PInt 4000) [bitcoin_row (- 40 * day) 2.5, bitcoin_row (- 5 * day) 2.5]
       = cleanup_old_data False 0 (PInt 30) [bitcoin_row (- 40 * day) 2.5, bitcoin_row (- 5 * day) 2.5]"
proof -
  have h: "isinstance_int (PInt 30) \<and> 0 < int_of (PInt 30) \<and> int_of (PInt 30) \<le> MAX_CLEANUP_DAYS"
    by (simp add: MAX_CLEANUP_DAYS_def)
  have k: "MAX_CLEANUP_DAYS < int_of (PInt 4000)"
    by (simp add: MAX_CLEANUP_DAYS_def)
  show ?thesis
    using h k
      purge_deletes_old [of "PInt 30" 0 "[bitcoin_row (- 40 * day) 2.5, bitcoin_row (- 5 * day) 2.5]"]
      purge_deletes_old [of "PInt 4000" 0 "[bitcoin_row (- 40 * day) 2.5, bitcoin_row (- 5 * day) 2.5]"]
    by (simp add: bitcoin_row_def day_def DEFAULT_CLEANUP_DAYS_def)
qed

text \<open>
  C6 as stated fails: on the scenario of the specification the row 40 days old is
  deleted and the value returned is \<open>None\<close>, not the count 1; and a purge of 4000 days
  deletes the row 40 days old, which is younger than that cutoff.
\<close>

theorem purge_counterexample:
  "cleanup_old_data False 0 (PInt 30) [bitcoin_row (- 40 * day) 2.5, bitcoin_row (- 5 * day) 2.5]
     = (PNone, [bitcoin_row (- 5 * day) 2.5], [Cleaned_up 1])
   \<and> cleanup_old_data False 0 (PInt 4000) [bitcoin_row (- 40 * day) 2.5, bitcoin_row (- 5 * day) 2.5]
     = (PNone, [bitcoin_row (- 5 * day) 2.5], [Cleaned_up 1])"
  by (simp add: cleanup_old_data_def Let_def bitcoin_row_def day_def MAX_CLEANUP_DAYS_def
      DEFAULT_CLEANUP_DAYS_def)

section \<open>The alert engine\<close>

subsection \<open>One item of the loop\<close>

lemma mark_simps:
  "last_alerts (mark self t symbol) X = (if X = symbol then Some t else last_alerts self X)"
  "threshold (mark self t symbol) = threshold self"
  "cooldown (mark self t symbol) = cooldown self"
  by (simp_all add: mark_def)

lemma check_loop_Cons_fire:
  "triggers self t symbol pd \<Longrightarrow>
   check_loop self t ((symbol, pd) # rest) =
     (\<lparr>a_symbol = symbol, a_price = dict_get pd ''price'' (PInt 0),
        a_change_24h = dict_get pd ''change_24h'' (PInt 0), a_threshold = threshold self,
        a_timestamp = t, a_type = dict_get pd ''type'' (PStr ''unknown'')\<rparr>
        # fst (check_loop (mark self t symbol) t rest),
      snd (check_loop (mark self t symbol) t rest))"
  by (simp add: triggers_def mark_def Let_def split: prod.splits)

lemma check_loop_Cons_skip:
  "\<not> triggers self t symbol pd \<Longrightarrow>
   check_loop self t ((symbol, pd) # rest) = check_loop self t rest"
  by (auto simp: triggers_def Let_def)

lemma triggers_cong:
  "last_alerts self' X = last_alerts self X \<Longrightarrow> cooldown self' = cooldown self \<Longrightarrow>
   threshold self' = threshold self \<Longrightarrow> triggers self' t X pd = triggers self t X pd"
  by (simp add: triggers_def can_send_alert_def split: option.splits)

lemma crossing_cong:
  "threshold self' = threshold self \<Longrightarrow> crossing self' X ps = crossing self X ps"
  by (simp add: crossing_def split: option.splits)

subsection \<open>The loop over a batch\<close>

lemma check_loop_frame:
  "threshold (snd (check_loop self t ps)) = threshold self \<and>
   cooldown (snd (check_loop self t ps)) = cooldown self"
proof (induction ps arbitrary: self)
  case Nil
  then show ?case by simp
next
  case (Cons p ps)
  obtain symbol pd where p: "p = (symbol, pd)" by (cases p)
  show ?case
  proof (cases "triggers self t symbol pd")
    case True
    with Cons [of "mark self t symbol"] p show ?thesis
      by (simp add: check_loop_Cons_fire mark_simps del: check_loop.simps)
  next
    case False
    with Cons [of self] p show ?thesis
      by (simp add: check_loop_Cons_skip del: check_loop.simps)
  qed
qed

lemma check_loop_other:
  "X \<notin> fst ` set ps \<Longrightarrow>
     alerts_for X (fst (check_loop self t ps)) = [] \<and>
     last_alerts (snd (check_loop self t ps)) X = last_alerts self X"
proof (induction ps arbitrary: self)
  case Nil
  then show ?case by (simp add: alerts_for_def)
next
  case (Cons p ps)
  obtain symbol pd where p: "p = (symbol, pd)" by (cases p)
  with Cons.prems have ne: "symbol \<noteq> X" and notin: "X \<notin> fst ` set ps" by auto
  show ?case
  proof (cases "triggers self t symbol pd")
    case True
    with Cons.IH [OF notin, of "mark self t symbol"] p ne show ?thesis
      by (simp add: check_loop_Cons_fire mark_simps alerts_for_def del: check_loop.simps)
  next
    case False
    with Cons.IH [OF notin, of self] p show ?thesis
      by (simp add: check_loop_Cons_skip del: check_loop.simps)
  qed
qed

lemma check_loop_hit:
  assumes "distinct (map fst ps)" and "map_of ps X = Some pd"
  shows "(triggers self t X pd \<longrightarrow>
            length (alerts_for X (fst (check_loop self t ps))) = 1
            \<and> last_alerts (snd (check_loop self t ps)) X = Some t)
       \<and> (\<not> triggers self t X pd \<longrightarrow>
            alerts_for X (fst (check_loop self t ps)) = []
            \<and> last_alerts (snd (check_loop self t ps)) X = last_alerts self X)"
  using assms
proof (induction ps arbitrary: self)
  case Nil
  then show ?case by simp
next
  case (Cons p ps)
  obtain symbol pd' where p: "p = (symbol, pd')" by (cases p)
  show ?case
  proof (cases "symbol = X")
    case True
    with Cons.prems p have pd: "pd' = pd" and notin: "X \<notin> fst ` set ps" by auto
    show ?thesis
    proof (cases "triggers self t X pd")
      case fire: True
      with check_loop_other [OF notin, of "mark self t X" t] p True pd show ?thesis
        by (simp add: check_loop_Cons_fire alerts_for_def mark_simps del: check_loop.simps)
    next
      case skip: False
      with check_loop_other [OF notin, of self t] p True pd show ?thesis
        by (simp add: check_loop_Cons_skip del: check_loop.simps)
    qed
  next
    case False
    with Cons.prems p have d: "distinct (map fst ps)" and m: "map_of ps X = Some pd" by auto
    show ?thesis
    proof (cases "triggers self t symbol pd'")
      case fire: True
      have "triggers (mark self t symbol) t X pd = triggers self t X pd"
        using False by (intro triggers_cong) (simp_all add: mark_simps)
      with Cons.IH [OF d m, of "mark self t symbol"] fire p False show ?thesis
        by (simp add: check_loop_Cons_fire alerts_for_def mark_simps del: check_loop.simps)
    next
      case skip: False
      with Cons.IH [OF d m, of self] p show ?thesis
        by (simp add: check_loop_Cons_skip del: check_loop.simps)
    qed
  qed
qed


subsection \<open>Calls and runs of calls\<close>

lemma check_price_alerts_loop: "check_price_alerts self t ps = check_loop self t ps"
  by (simp add: check_price_alerts_def)

lemma length_check_run: "length (check_run self calls) = length calls"
  by (induction calls arbitrary: self) (auto simp: Let_def)

lemma suppressed_call:
  assumes "last_alerts self X = Some t1" and "is_dict ps" and "crossing self X ps"
      and "total_seconds (t - t1) < real_of_int (cooldown self)"
  shows "alerts_for X (fst (check_price_alerts self t ps)) = []
         \<and> last_alerts (snd (check_price_alerts self t ps)) X = Some t1"
proof -
  from assms(3) obtain pd where pd: "map_of ps X = Some pd"
    by (auto simp: crossing_def split: option.splits)
  from assms(1,4) have "\<not> triggers self t X pd"
    by (simp add: triggers_def can_send_alert_def)
  with check_loop_hit [of ps X pd self t] assms(1,2) pd show ?thesis
    by (simp add: check_price_alerts_loop is_dict_def)
qed

lemma suppressed_run:
  assumes "last_alerts self X = Some t1"
      and "\<forall>(t, ps) \<in> set calls. is_dict ps \<and> crossing self X ps
             \<and> total_seconds (t - t1) < real_of_int (cooldown self)"
  shows "\<forall>(alerts, self') \<in> set (check_run self calls).
           alerts_for X alerts = [] \<and> last_alerts self' X = Some t1"
  using assms
proof (induction calls arbitrary: self)
  case Nil
  then show ?case by simp
next
  case (Cons c calls)
  obtain t ps where c: "c = (t, ps)" by (cases c)
  let ?r = "check_price_alerts self t ps"
  from Cons.prems c have here: "alerts_for X (fst ?r) = [] \<and> last_alerts (snd ?r) X = Some t1"
    by (intro suppressed_call) auto
  have frame: "threshold (snd ?r) = threshold self" "cooldown (snd ?r) = cooldown self"
    by (simp_all add: check_price_alerts_loop check_loop_frame)
  have "\<forall>(alerts, self') \<in> set (check_run (snd ?r) calls).
           alerts_for X alerts = [] \<and> last_alerts self' X = Some t1"
  proof (rule Cons.IH)
    show "last_alerts (snd ?r) X = Some t1" using here by simp
    show "\<forall>(t, ps) \<in> set calls. is_dict ps \<and> crossing (snd ?r) X ps
             \<and> total_seconds (t - t1) < real_of_int (cooldown (snd ?r))"
      using Cons.prems(2) frame by (auto simp: crossing_cong [OF frame(1)])
  qed
  with here c show ?case by (auto simp: Let_def)
qed

text \<open>
  C4. A run of calls of \<open>check_price_alerts\<close> on one engine, in each of which the batch
  holds a valid record for \<open>X\<close> whose change reaches the threshold; at the first call
  an alert for \<open>X\<close> may be sent (no earlier alert, or the cooldown has elapsed), and every
  later call comes less than the cooldown after the first. Then the first call returns
  exactly one alert for \<open>X\<close>, every later call returns none, and after every call
  \<open>last_alerts[X]\<close> is the time of the first call.
\<close>

theorem cooldown_invariant:
  assumes "\<forall>(t, ps) \<in> set ((t1, ps1) # calls). is_dict ps \<and> crossing self X ps"
      and "can_send_alert self X t1"
      and "\<forall>(t, ps) \<in> set calls. total_seconds (t - t1) < real_of_int (cooldown self)"
  shows "length (check_run self ((t1, ps1) # calls)) = Suc (length calls)
       \<and> length (alerts_for X (fst (check_run self ((t1, ps1) # calls) ! 0))) = 1
       \<and> (\<forall>i. 0 < i \<and> i \<le> length calls \<longrightarrow>
             alerts_for X (fst (check_run self ((t1, ps1) # calls) ! i)) = [])
       \<and> (\<forall>i \<le> length calls.
             last_alerts (snd (check_run self ((t1, ps1) # calls) ! i)) X = Some t1)"
proof -
  let ?r = "check_price_alerts self t1 ps1"
  from assms(1) obtain pd where pd: "map_of ps1 X = Some pd" and v: "validate_price_data X pd"
    and th: "float_le (threshold self) (float_abs (val (dict_get pd ''change_24h'' (PInt 0))))"
    by (auto simp: crossing_def split: option.splits)
  from v th assms(2) have "triggers self t1 X pd" by (simp add: triggers_def)
  with check_loop_hit [of ps1 X pd self t1] assms(1) pd
  have first: "length (alerts_for X (fst ?r)) = 1" "last_alerts (snd ?r) X = Some t1"
    by (simp_all add: check_price_alerts_loop is_dict_def)
  have frame: "threshold (snd ?r) = threshold self" "cooldown (snd ?r) = cooldown self"
    by (simp_all add: check_price_alerts_loop check_loop_frame)
  have rest: "\<forall>(alerts, self') \<in> set (check_run (snd ?r) calls).
           alerts_for X alerts = [] \<and> last_alerts self' X = Some t1"
  proof (rule suppressed_run [OF first(2)])
    show "\<forall>(t, ps) \<in> set calls. is_dict ps \<and> crossing (snd ?r) X ps
             \<and> total_seconds (t - t1) < real_of_int (cooldown (snd ?r))"
      using assms(1,3) frame by (auto simp: crossing_cong [OF frame(1)])
  qed
  have run: "check_run self ((t1, ps1) # calls) = ?r # check_run (snd ?r) calls"
    by (simp add: Let_def)
  have later: "alerts_for X (fst (check_run (snd ?r) calls ! i)) = []
               \<and> last_alerts (snd (check_run (snd ?r) calls ! i)) X = Some t1"
    if "i < length calls" for i
  proof -
    from that have "check_run (snd ?r) calls ! i \<in> set (check_run (snd ?r) calls)"
      by (simp add: length_check_run)
    with rest show ?thesis by (auto simp: case_prod_beta)
  qed
  show ?thesis
  proof (intro conjI allI impI)
    show "length (check_run self ((t1, ps1) # calls)) = Suc (length calls)"
      by (simp add: length_check_run Let_def)
    show "length (alerts_for X (fst (check_run self ((t1, ps1) # calls) ! 0))) = 1"
      using first run by simp
    show "alerts_for X (fst (check_run self ((t1, ps1) # calls) ! i)) = []"
      if "0 < i \<and> i \<le> length calls" for i
      using that later [of "i - 1"] run by (cases i) simp_all
    show "last_alerts (snd (check_run self ((t1, ps1) # calls) ! i)) X = Some t1"
      if "i \<le> length calls" for i
      using that later [of "i - 1"] first run by (cases i) simp_all
  qed
qed

text \<open>
  C4, at the scenario of the specification: threshold 5, cooldown 300 s, a change of
  +7.5 at 0 s and a change of +8.0 at 120 s.
\<close>

theorem cooldown_invariant_witness:
  "is_dict [(''bitcoin'', bitcoin_data 7.5)]
   \<and> crossing init_alert_system ''bitcoin'' [(''bitcoin'', bitcoin_data 7.5)]
   \<and> is_dict [(''bitcoin'', bitcoin_data 8)]
   \<and> crossing init_alert_system ''bitcoin'' [(''bitcoin'', bitcoin_data 8)]
   \<and> can_send_alert init_alert_system ''bitcoin'' 0
   \<and> total_seconds (120000000 - 0) < real_of_int (cooldown init_alert_system)
   \<and> length (alerts_for ''bitcoin'' (fst (check_run init_alert_system
         ((0, [(''bitcoin'', bitcoin_data 7.5)]) # [(120000000, [(''bitcoin'', bitcoin_data 8)])]) ! 0))) = 1
   \<and> alerts_for ''bitcoin'' (fst (check_run init_alert_system
         ((0, [(''bitcoin'', bitcoin_data 7.5)]) # [(120000000, [(''bitcoin'', bitcoin_data 8)])]) ! 1)) = []
   \<and> last_alerts (snd (check_run init_alert_system
         ((0, [(''bitcoin'', bitcoin_data 7.5)]) # [(120000000, [(''bitcoin'', bitcoin_data 8)])]) ! 1))
       ''bitcoin'' = Some 0"
proof -
  have d1: "is_dict [(''bitcoin'', bitcoin_data 7.5)]" and d2: "is_dict [(''bitcoin'', bitcoin_data 8)]"
    by (simp_all add: is_dict_def)
  have x1: "crossing init_alert_system ''bitcoin'' [(''bitcoin'', bitcoin_data 7.5)]"
    by (simp add: crossing_def validator_defs bitcoin_data_def dict_get_def
        init_alert_system_def ALERT_THRESHOLD_def)
  have x2: "crossing init_alert_system ''bitcoin'' [(''bitcoin'', bitcoin_data 8)]"
    by (simp add: crossing_def validator_defs bitcoin_data_def dict_get_def
        init_alert_system_def ALERT_THRESHOLD_def)
  have h2: "can_send_alert init_alert_system ''bitcoin'' 0"
    by (simp add: can_send_alert_def init_alert_system_def)
  have s: "total_seconds (120000000 - 0) < real_of_int (cooldown init_alert_system)"
    by (simp add: total_seconds_def init_alert_system_def ALERT_COOLDOWN_def)
  have h1: "\<forall>(t, ps) \<in> set ((0, [(''bitcoin'', bitcoin_data 7.5)])
                      # [(120000000, [(''bitcoin'', bitcoin_data 8)])]).
       is_dict ps \<and> crossing init_alert_system ''bitcoin'' ps"
    using d1 d2 x1 x2 by simp
  have h3: "\<forall>(t, ps) \<in> set [(120000000, [(''bitcoin'', bitcoin_data 8)])].
         total_seconds (t - 0) < real_of_int (cooldown init_alert_system)"
    using s by simp
  note r = cooldown_invariant [OF h1 h2 h3]
  note c1 = r [THEN conjunct2, THEN conjunct1]
  have c2: "alerts_for ''bitcoin'' (fst (check_run init_alert_system
         ((0, [(''bitcoin'', bitcoin_data 7.5)]) # [(120000000, [(''bitcoin'', bitcoin_data 8)])]) ! 1)) = []"
    using r [THEN conjunct2, THEN conjunct2, THEN conjunct1, THEN spec, of 1] by simp
  have c3: "last_alerts (snd (check_run init_alert_system
         ((0, [(''bitcoin'', bitcoin_data 7.5)]) # [(120000000, [(''bitcoin'', bitcoin_data 8)])]) ! 1))
       ''bitcoin'' = Some 0"
    using r [THEN conjunct2, THEN conjunct2, THEN conjunct2, THEN spec, of 1] by simp
  show ?thesis
    by (rule conjI [OF d1 conjI [OF x1 conjI [OF d2 conjI [OF x2 conjI [OF h2 conjI [OF s
        conjI [OF c1 conjI [OF c2 c3]]]]]]]])
qed

text \<open>
  The whole scenario of the specification, evaluated: the alerts of 0 s and of 305 s
  are sent, the one of 120 s is suppressed.
\<close>

lemma cooldown_scenario:
  "map (\<lambda>(alerts, self'). (map a_timestamp alerts, last_alerts self' ''bitcoin''))
     (check_run init_alert_system
        [(0, [(''bitcoin'', bitcoin_data 7.5)]),
         (120000000, [(''bitcoin'', bitcoin_data 8)]),
         (305000000, [(''bitcoin'', bitcoin_data 8)])])
   = [([0], Some 0), ([], Some 0), ([305000000], Some 305000000)]"
  by (simp add: check_price_alerts_def can_send_alert_def total_seconds_def validator_defs
      bitcoin_data_def dict_get_def init_alert_system_def ALERT_THRESHOLD_def ALERT_COOLDOWN_def
      Let_def)

text \<open>
  C5. For a valid record of \<open>X\<close> in a batch, the test is on the absolute value of the
  change and is inclusive: a change whose absolute value is exactly the threshold makes
  \<open>check_price_alerts\<close> return one alert for \<open>X\<close> when the cooldown allows it (and none
  when it does not); a change whose absolute value is the threshold less some
  \<open>eps > 0\<close> yields no alert for \<open>X\<close>.
\<close>

theorem threshold_boundary:
  assumes "is_dict ps" and "map_of ps X = Some pd" and "validate_price_data X pd"
  shows "(float_abs (val (dict_get pd ''change_24h'' (PInt 0))) = Finite th
            \<and> threshold self = Finite th \<longrightarrow>
            (can_send_alert self X t \<longrightarrow>
               length (alerts_for X (fst (check_price_alerts self t ps))) = 1)
          \<and> (\<not> can_send_alert self X t \<longrightarrow>
               alerts_for X (fst (check_price_alerts self t ps)) = []))
       \<and> (0 < eps \<and> float_abs (val (dict_get pd ''change_24h'' (PInt 0))) = Finite (th - eps)
            \<and> threshold self = Finite th \<longrightarrow>
            alerts_for X (fst (check_price_alerts self t ps)) = [])"
  using check_loop_hit [of ps X pd self t] assms
  by (auto simp: check_price_alerts_loop is_dict_def triggers_def)

text \<open>
  C5, at concrete values: with the threshold 5 of the configuration, a change of -5.0
  raises an alert and a change of -4.5 does not.
\<close>

theorem threshold_boundary_witness:
  "is_dict [(''bitcoin'', bitcoin_data (- 5))]
   \<and> map_of [(''bitcoin'', bitcoin_data (- 5))] ''bitcoin'' = Some (bitcoin_data (- 5))
   \<and> validate_price_data ''bitcoin'' (bitcoin_data (- 5))
   \<and> float_abs (val (dict_get (bitcoin_data (- 5)) ''change_24h'' (PInt 0))) = Finite 5
   \<and> threshold init_alert_system = Finite 5
   \<and> can_send_alert init_alert_system ''bitcoin'' 0
   \<and> length (alerts_for ''bitcoin''
        (fst (check_price_alerts init_alert_system 0 [(''bitcoin'', bitcoin_data (- 5))]))) = 1
   \<and> is_dict [(''bitcoin'', bitcoin_data (- 4.5))]
   \<and> map_of [(''bitcoin'', bitcoin_data (- 4.5))] ''bitcoin'' = Some (bitcoin_data (- 4.5))
   \<and> validate_price_data ''bitcoin'' (bitcoin_data (- 4.5))
   \<and> (0::real) < 0.5
   \<and> float_abs (val (dict_get (bitcoin_data (- 4.5)) ''change_24h'' (PInt 0))) = Finite (5 - 0.5)
   \<and> alerts_for ''bitcoin''
        (fst (check_price_alerts init_alert_system 0 [(''bitcoin'', bitcoin_data (- 4.5))])) = []"
proof -
  have a1: "is_dict [(''bitcoin'', bitcoin_data (- 5))]" by (simp add: is_dict_def)
  have a2: "map_of [(''bitcoin'', bitcoin_data (- 5))] ''bitcoin'' = Some (bitcoin_data (- 5))"
    by simp
  have a3: "validate_price_data ''bitcoin'' (bitcoin_data (- 5))"
    by (simp add: validator_defs bitcoin_data_def)
  have a4: "float_abs (val (dict_get (bitcoin_data (- 5)) ''change_24h'' (PInt 0))) = Finite 5"
    by (simp add: bitcoin_data_def dict_get_def)
  have i: "threshold init_alert_system = Finite 5"
    by (simp add: init_alert_system_def ALERT_THRESHOLD_def)
  have a5: "can_send_alert init_alert_system ''bitcoin'' 0"
    by (simp add: can_send_alert_def init_alert_system_def)
  note a6 = threshold_boundary [OF a1 a2 a3, where self = init_alert_system and t = 0 and th = 5,
      THEN conjunct1, THEN mp, OF conjI, OF a4 i, THEN conjunct1, THEN mp, OF a5]
  have b1: "is_dict [(''bitcoin'', bitcoin_data (- 4.5))]" by (simp add: is_dict_def)
  have b2: "map_of [(''bitcoin'', bitcoin_data (- 4.5))] ''bitcoin'' = Some (bitcoin_data (- 4.5))"
    by simp
  have b3: "validate_price_data ''bitcoin'' (bitcoin_data (- 4.5))"
    by (simp add: validator_defs bitcoin_data_def)
  have b4: "(0::real) < 0.5" by simp
  have b5: "float_abs (val (dict_get (bitcoin_data (- 4.5)) ''change_24h'' (PInt 0))) = Finite (5 - 0.5)"
    by (simp add: bitcoin_data_def dict_get_def)
  note b6 = threshold_boundary [OF b1 b2 b3, where self = init_alert_system and t = 0 and th = 5
      and eps = "0.5", THEN conjunct2, THEN mp, OF conjI, OF b4 conjI, OF b5 i]
  show ?thesis
    by (rule conjI [OF a1 conjI [OF a2 conjI [OF a3 conjI [OF a4 conjI [OF i conjI [OF a5
        conjI [OF a6 conjI [OF b1 conjI [OF b2 conjI [OF b3 conjI [OF b4 conjI [OF b5 b6]]]]]]]]]]]])
qed

subsection \<open>Conversion of integers to floats\<close>








section \<open>The rate limiter\<close>

text \<open>
  C9. \<open>_rate_limit\<close> always returns: the argument of its only call of \<open>time.sleep\<close> is
  positive. It changes no field other than \<open>last_request_time\<close>, which it sets to the
  clock at its return, so the \<open>last_request_time\<close> it finds is the clock at the return of
  the call before. Entered less than \<open>rate_limit_delay\<close> = 60 / rate limit after that, it
  reads the clock, sleeps for the time that is missing and reads the clock again;
  entered later, it reads the clock twice and does not sleep; it makes no other call.
  When the sleep lasts at least as long as asked and the clock does not run backwards
  before the final reading, the call does not return before it was entered, and returns
  at least \<open>rate_limit_delay\<close> after the return of the call before.
\<close>

theorem rate_limit_never_fails:
  "\<exists>self' clock' effects.
      rate_limit self clock overshoot lag = Inr (self', clock', effects)
      \<and> self' = self\<lparr>last_request_time := clock'\<rparr>
      \<and> (clock - last_request_time self < rate_limit_delay self \<longrightarrow>
            effects = [Time_time clock,
                       Time_sleep (rate_limit_delay self - (clock - last_request_time self)),
                       Time_time clock']
            \<and> 0 < rate_limit_delay self - (clock - last_request_time self)
            \<and> clock' = clock + (rate_limit_delay self - (clock - last_request_time self))
                        + overshoot + lag)
      \<and> (rate_limit_delay self \<le> clock - last_request_time self \<longrightarrow>
            effects = [Time_time clock, Time_time clock'] \<and> clock' = clock + lag)
      \<and> (0 \<le> overshoot \<and> 0 \<le> lag \<longrightarrow>
            clock \<le> clock' \<and> rate_limit_delay self \<le> clock' - last_request_time self)"
  by (auto simp: rate_limit_def time_sleep_def Let_def)

text \<open>
  C9, at concrete values: with the rate limit 50 of the configuration (a delay of 1.2 s),
  a call entered 0.5 s after the return of the one before sleeps 0.7 s and returns 1.2 s
  after it; a call entered 2 s after it returns at once.
\<close>

theorem rate_limit_never_fails_witness:
  "(0::real) \<le> 0 \<and> (0::real) \<le> 0
   \<and> 100.5 - last_request_time (init_price_scraper\<lparr>last_request_time := 100\<rparr>)
       < rate_limit_delay (init_price_scraper\<lparr>last_request_time := 100\<rparr>)
   \<and> rate_limit (init_price_scraper\<lparr>last_request_time := 100\<rparr>) 100.5 0 0
       = Inr (init_price_scraper\<lparr>last_request_time := 101.2\<rparr>, 101.2,
              [Time_time 100.5, Time_sleep 0.7, Time_time 101.2])
   \<and> rate_limit_delay (init_price_scraper\<lparr>last_request_time := 100\<rparr>)
       \<le> 102 - last_request_time (init_price_scraper\<lparr>last_request_time := 100\<rparr>)
   \<and> rate_limit (init_price_scraper\<lparr>last_request_time := 100\<rparr>) 102 0 0
       = Inr (init_price_scraper\<lparr>last_request_time := 102\<rparr>, 102,
              [Time_time 102, Time_time 102])"
proof -
  let ?s = "init_price_scraper\<lparr>last_request_time := 100\<rparr>"
  have h: "(0::real) \<le> 0" by simp
  have d: "rate_limit_delay ?s = 1.2" "last_request_time ?s = 100"
    by (simp_all add: init_price_scraper_def COINGECKO_RATE_LIMIT_def)
  have a: "100.5 - last_request_time ?s < rate_limit_delay ?s" by (simp add: d)
  have b: "rate_limit_delay ?s \<le> 102 - last_request_time ?s" by (simp add: d)
  from rate_limit_never_fails [of ?s "100.5" 0 0] a d
  have r1: "rate_limit ?s 100.5 0 0
       = Inr (init_price_scraper\<lparr>last_request_time := 101.2\<rparr>, 101.2,
              [Time_time 100.5, Time_sleep 0.7, Time_time 101.2])"
    by (auto simp: init_price_scraper_def)
  from rate_limit_never_fails [of ?s 102 0 0] b d
  have r2: "rate_limit ?s 102 0 0
       = Inr (init_price_scraper\<lparr>last_request_time := 102\<rparr>, 102,
              [Time_time 102, Time_time 102])"
    by (auto simp: init_price_scraper_def)
  show ?thesis
    by (rule conjI [OF h conjI [OF h conjI [OF a conjI [OF r1 conjI [OF b r2]]]]])
qed

end
